theory Spec2Isabelle
  imports Main "HOL-Library.Word" "HOL-Library.Signed_Division" "HOL-Library.Code_Target_Nat"
begin

section \<open>Single-precision floating point\<close>

text \<open>
  The C++ type \<open>float\<close> is the IEEE 754 binary32 format with the default rounding
  (to nearest, ties to even) and gradual underflow. A finite value is kept as sign,
  significand and exponent: \<open>Fin s m e\<close> stands for \<open>(-1)^s * m * 2^e\<close>, with
  \<open>m < 2^24\<close>, \<open>-149 \<le> e \<le> 104\<close> and either \<open>2^23 \<le> m\<close> (normal) or
  \<open>e = -149\<close> (subnormal and zero). The sign is \<open>True\<close> for negative values.
\<close>

datatype f32 = NaN | Inf bool | Fin bool nat int

fun bit_length :: "nat \<Rightarrow> nat" where
  "bit_length n = (if n = 0 then 0 else Suc (bit_length (n div 2)))"

declare bit_length.simps [simp del]

text \<open>
  \<open>f32_round s m e\<close> rounds the exact value \<open>(-1)^s * m * 2^e\<close> to binary32: the
  significand is cut to 24 bits (fewer below \<open>2^-126\<close>), the dropped bits decide the
  rounding, and a result of \<open>2^128\<close> or more is an infinity.
\<close>

definition f32_round :: "bool \<Rightarrow> nat \<Rightarrow> int \<Rightarrow> f32" where
  "f32_round s m e =
     (if m = 0 then Fin s 0 (- 149)
      else
        let e' = max (e + int (bit_length m) - 24) (- 149) in
        if e' \<le> e then
          (if 104 < e' then Inf s else Fin s (m * 2 ^ nat (e - e')) e')
        else
          let k = nat (e' - e);
              q = m div 2 ^ k;
              r = m mod 2 ^ k;
              h = 2 ^ (k - 1);
              q' = (if h < r \<or> (r = h \<and> odd q) then q + 1 else q);
              m'' = (if q' = 2 ^ 24 then 2 ^ 23 else q');
              e'' = (if q' = 2 ^ 24 then e' + 1 else e')
          in if 104 < e'' then Inf s else Fin s m'' e'')"

text \<open>The product of two floats (\<open>a * b\<close> on \<open>float\<close>).\<close>

fun f32_mul :: "f32 \<Rightarrow> f32 \<Rightarrow> f32" where
  "f32_mul NaN _ = NaN"
| "f32_mul _ NaN = NaN"
| "f32_mul (Inf s) (Inf t) = Inf (s \<noteq> t)"
| "f32_mul (Inf s) (Fin t n f) = (if n = 0 then NaN else Inf (s \<noteq> t))"
| "f32_mul (Fin s m e) (Inf t) = (if m = 0 then NaN else Inf (s \<noteq> t))"
| "f32_mul (Fin s m e) (Fin t n f) = f32_round (s \<noteq> t) (m * n) (e + f)"

text \<open>
  A finite float as an integer count of \<open>2^-149\<close>, the smallest positive float; every
  finite binary32 value is such a multiple.
\<close>

fun f32_units :: "bool \<Rightarrow> nat \<Rightarrow> int \<Rightarrow> int" where
  "f32_units s m e = (if s then - 1 else 1) * (int m * 2 ^ nat (e + 149))"

text \<open>The comparison \<open>a < b\<close> on \<open>float\<close>: false whenever an operand is a NaN.\<close>

fun f32_less :: "f32 \<Rightarrow> f32 \<Rightarrow> bool" where
  "f32_less NaN _ = False"
| "f32_less _ NaN = False"
| "f32_less (Inf s) (Inf t) = (s \<and> \<not> t)"
| "f32_less (Inf s) (Fin t n f) = s"
| "f32_less (Fin s m e) (Inf t) = (\<not> t)"
| "f32_less (Fin s m e) (Fin t n f) = (f32_units s m e < f32_units t n f)"

fun f32_le :: "f32 \<Rightarrow> f32 \<Rightarrow> bool" where
  "f32_le NaN _ = False"
| "f32_le _ NaN = False"
| "f32_le (Inf s) (Inf t) = (if t then s else True)"
| "f32_le (Inf s) (Fin t n f) = s"
| "f32_le (Fin s m e) (Inf t) = (\<not> t)"
| "f32_le (Fin s m e) (Fin t n f) = (f32_units s m e \<le> f32_units t n f)"

fun f32_isinf :: "f32 \<Rightarrow> bool" where
  "f32_isinf (Inf s) = True"
| "f32_isinf _ = False"

fun f32_isnan :: "f32 \<Rightarrow> bool" where
  "f32_isnan NaN = True"
| "f32_isnan _ = False"

text \<open>\<open>std::min(a, b)\<close> is \<open>(b < a) ? b : a\<close>.\<close>

definition std_min :: "f32 \<Rightarrow> f32 \<Rightarrow> f32" where
  "std_min a b = (if f32_less b a then b else a)"

text \<open>The literals of the source, and the positive zero.\<close>

definition f32_zero :: f32 where
  "f32_zero = Fin False 0 (- 149)"

definition f32_half :: f32 where \<comment> \<open>\<open>0.5f\<close>\<close>
  "f32_half = Fin False (2 ^ 23) (- 24)"

definition f32_one :: f32 where \<comment> \<open>\<open>1.0f\<close>\<close>
  "f32_one = Fin False (2 ^ 23) (- 23)"

definition f32_two :: f32 where \<comment> \<open>\<open>2.0f\<close>\<close>
  "f32_two = Fin False (2 ^ 23) (- 22)"

definition f32_65536 :: f32 where \<comment> \<open>\<open>65536.0f\<close>\<close>
  "f32_65536 = Fin False (2 ^ 23) (- 7)"

definition f32_tenth :: f32 where \<comment> \<open>\<open>0.1f\<close>, the float nearest to one tenth\<close>
  "f32_tenth = Fin False 13421773 (- 27)"

section \<open>Tensors\<close>

text \<open>
  A tensor is its element type, its shape and its elements in row-major order. A
  parameter is a tensor together with its gradient, which is undefined (\<open>None\<close>) until a
  backward pass has filled it.
\<close>

datatype ScalarType = kFloat32 | kFloat16 | kFloat64

record Tensor =
  dtype :: ScalarType
  shape :: "nat list"
  elems :: "f32 list"

record Param =
  data :: Tensor
  grad :: "Tensor option"

text \<open>\<open>torch::isinf(t).any().item<bool>()\<close> and \<open>torch::isnan(t).any().item<bool>()\<close>.\<close>

definition any_isinf :: "Tensor \<Rightarrow> bool" where
  "any_isinf t = list_ex f32_isinf (elems t)"

definition any_isnan :: "Tensor \<Rightarrow> bool" where
  "any_isnan t = list_ex f32_isnan (elems t)"

section \<open>ManualGradScaler\<close>

text \<open>The C++ type \<open>int\<close>: 32 bits, read as two's complement.\<close>

type_synonym int32 = "32 word"

record ManualGradScaler =
  scale :: f32
  growthFactor :: f32
  backoffFactor :: f32
  growthInterval :: int32
  unskippedSteps :: int32
  enabled :: bool

text \<open>The constructor, and the constructor called with its default arguments.\<close>

definition ManualGradScaler_init :: "f32 \<Rightarrow> f32 \<Rightarrow> f32 \<Rightarrow> int32 \<Rightarrow> ManualGradScaler" where
  "ManualGradScaler_init initScale growth backoff interval =
     \<lparr> scale = initScale, growthFactor = growth, backoffFactor = backoff,
       growthInterval = interval, unskippedSteps = 0, enabled = True \<rparr>"

definition ManualGradScaler_default :: ManualGradScaler where
  "ManualGradScaler_default = ManualGradScaler_init f32_65536 f32_two f32_half 2000"

text \<open>\<open>scaleGradients\<close>: the product of a tensor and a float is taken element by element.\<close>

definition tensor_mul_scalar :: "Tensor \<Rightarrow> f32 \<Rightarrow> Tensor" where
  "tensor_mul_scalar t c = t\<lparr> elems := map (\<lambda>x. f32_mul x c) (elems t) \<rparr>"

definition scaleGradients :: "ManualGradScaler \<Rightarrow> Tensor \<Rightarrow> Tensor" where
  "scaleGradients g loss =
     (if \<not> enabled g then loss else tensor_mul_scalar loss (scale g))"

text \<open>
  The scan of \<open>step\<close>: the loop over the parameters, which leaves at the first defined
  gradient holding an infinity or a NaN.
\<close>

fun foundInf :: "Param list \<Rightarrow> bool" where
  "foundInf [] = False"
| "foundInf (p # ps) =
     (case grad p of
        None \<Rightarrow> foundInf ps
      | Some g \<Rightarrow> if any_isinf g \<or> any_isnan g then True else foundInf ps)"

text \<open>
  \<open>step\<close> returns its boolean result and the scaler as the call leaves it. The counter
  is a 32-bit \<open>int\<close>; \<open>++\<close> is written as the wrapping addition, and the comparison
  is the signed one.
\<close>

definition step :: "ManualGradScaler \<Rightarrow> Param list \<Rightarrow> bool \<times> ManualGradScaler" where
  "step g params =
     (if \<not> enabled g then (True, g)
      else if foundInf params then
        (False, g\<lparr> scale := f32_mul (scale g) (backoffFactor g), unskippedSteps := 0 \<rparr>)
      else
        let g1 = g\<lparr> unskippedSteps := unskippedSteps g + 1 \<rparr> in
        if growthInterval g1 \<le>s unskippedSteps g1 then
          (True, g1\<lparr> scale := std_min (f32_mul (scale g1) (growthFactor g1)) f32_65536,
                     unskippedSteps := 0 \<rparr>)
        else (True, g1))"

text \<open>A run of calls of \<open>step\<close>, one parameter list for each call.\<close>

fun steps :: "ManualGradScaler \<Rightarrow> Param list list \<Rightarrow> ManualGradScaler" where
  "steps g [] = g"
| "steps g (ps # pss) = steps (snd (step g ps)) pss"

section \<open>Model\<close>

subsection \<open>Tensor operations of the constructor\<close>

text \<open>\<open>torch::zeros(sizes)\<close> and \<open>torch::ones(sizes)\<close>, of the default element type.\<close>

definition zeros :: "nat list \<Rightarrow> Tensor" where
  "zeros sizes = \<lparr> dtype = kFloat32, shape = sizes, elems = replicate (prod_list sizes) f32_zero \<rparr>"

definition ones :: "nat list \<Rightarrow> Tensor" where
  "ones sizes = \<lparr> dtype = kFloat32, shape = sizes, elems = replicate (prod_list sizes) f32_one \<rparr>"

text \<open>An operation applied to every element (\<open>log\<close>, \<open>logit\<close>).\<close>

definition tensor_map :: "(f32 \<Rightarrow> f32) \<Rightarrow> Tensor \<Rightarrow> Tensor" where
  "tensor_map f t = t\<lparr> elems := map f (elems t) \<rparr>"

text \<open>\<open>t.to(torch::kFloat16)\<close>, given the rounding of one element to half precision.\<close>

definition to_kFloat16 :: "(f32 \<Rightarrow> f32) \<Rightarrow> Tensor \<Rightarrow> Tensor" where
  "to_kFloat16 cvt t = t\<lparr> dtype := kFloat16, elems := map cvt (elems t) \<rparr>"

text \<open>
  \<open>t.size(0)\<close>: the first dimension; the library throws for a tensor without
  dimensions, which is \<open>None\<close> here.
\<close>

definition size0 :: "Tensor \<Rightarrow> nat option" where
  "size0 t = (case shape t of [] \<Rightarrow> None | n # _ \<Rightarrow> Some n)"

text \<open>
  \<open>t.repeat({1, 3})\<close> on a tensor of one column: every row, a single element, is
  written three times.
\<close>

definition repeat_1_3 :: "Tensor \<Rightarrow> Tensor" where
  "repeat_1_3 t =
     t\<lparr> shape := [length (elems t), 3], elems := concat (map (replicate 3) (elems t)) \<rparr>"

subsection \<open>Collaborators\<close>

datatype Device = kCPU | kCUDA | kMPS

text \<open>
  The operations of the tensor library and of the other headers that the constructor
  calls are parameters of the model; \<open>'rng\<close> is the state of the library's random
  generator.
  \<^item> \<open>manual_seed\<close>: the generator state that \<open>torch::manual_seed(seed)\<close> installs;
  \<^item> \<open>random_unit_quat\<close>: one uniformly random unit quaternion (four floats) drawn
    from the generator, with the generator state left behind;
  \<^item> \<open>knn_distance\<close>: the nearest-neighbour distance of every point of a cloud;
  \<^item> \<open>log_f32\<close>, \<open>logit_f32\<close>: \<open>log\<close> and \<open>logit\<close> on one float;
  \<^item> \<open>half_of_f32\<close>: a float rounded to half precision;
  \<^item> \<open>numShBases\<close>: the number of spherical-harmonic bases of a degree.
\<close>

record 'rng Collaborators =
  manual_seed :: "64 word \<Rightarrow> 'rng"
  random_unit_quat :: "'rng \<Rightarrow> f32 list \<times> 'rng"
  knn_distance :: "Tensor \<Rightarrow> f32 list"
  log_f32 :: "f32 \<Rightarrow> f32"
  logit_f32 :: "f32 \<Rightarrow> f32"
  half_of_f32 :: "f32 \<Rightarrow> f32"
  numShBases :: "int32 \<Rightarrow> nat"

text \<open>
  Modelled from the spec: \<open>randomQuatTensor\<close> is declared in \<open>model.hpp\<close> and defined
  elsewhere. The specification has the rotation of every point seeded "from a uniformly
  random unit quaternion per point": \<open>n\<close> quaternions are drawn from the generator, one
  after the other, and make the rows of an \<open>n \<times> 4\<close> tensor.
\<close>

fun draw_quats :: "('rng \<Rightarrow> f32 list \<times> 'rng) \<Rightarrow> nat \<Rightarrow> 'rng \<Rightarrow> f32 list list \<times> 'rng" where
  "draw_quats draw 0 g = ([], g)"
| "draw_quats draw (Suc n) g =
     (let (q, g1) = draw g; (qs, g2) = draw_quats draw n g1 in (q # qs, g2))"

definition randomQuatTensor :: "'rng Collaborators \<Rightarrow> nat \<Rightarrow> 'rng \<Rightarrow> Tensor \<times> 'rng" where
  "randomQuatTensor T n g =
     (let (qs, g') = draw_quats (random_unit_quat T) n g
      in (\<lparr> dtype = kFloat32, shape = [n, 4], elems = concat qs \<rparr>, g'))"

text \<open>
  Modelled from the spec: \<open>PointsTensor(xyz).scales()\<close> belongs to \<open>kdtree_tensor.hpp\<close>.
  The specification has the scale of every point seeded "from a per-point
  nearest-neighbor distance heuristic": one distance for each point, as a tensor of one
  column.
\<close>

definition PointsTensor_scales :: "'rng Collaborators \<Rightarrow> Tensor \<Rightarrow> Tensor" where
  "PointsTensor_scales T xyz =
     \<lparr> dtype = kFloat32, shape = [length (knn_distance T xyz), 1], elems = knn_distance T xyz \<rparr>"

subsection \<open>The constructor\<close>

record Points =
  xyz :: Tensor
  rgb :: Tensor

record InputData =
  points :: Points
  scale_InputData :: f32
  translation_InputData :: Tensor

text \<open>The constructor's arguments after \<open>inputData\<close>, under their own names.\<close>

record ModelArgs =
  numCameras :: int32
  numDownscales :: int32
  resolutionSchedule :: int32
  shDegree :: int32
  shDegreeInterval :: int32
  refineEvery :: int32
  warmupLength :: int32
  resetAlphaEvery :: int32
  densifyGradThresh :: f32
  densifySizeThresh :: f32
  stopScreenSizeAt :: int32
  splitScreenSize :: f32
  maxSteps :: int32
  keepCrs :: bool
  mixedPrecision :: bool
  fp16Level :: int32
  ampWarmup :: int32
  device :: Device

text \<open>
  The members of \<open>Model\<close>: one for each argument, of the same name and holding its
  value, and the members that the constructor computes. The members \<open>scale\<close> and
  \<open>translation\<close> carry the suffix \<open>_Model\<close>, the scaler having a \<open>scale\<close> already.
  The members \<open>featuresDc\<close> and \<open>backgroundColor\<close>, the optimizers and the members
  that \<open>forward\<close> and \<open>afterTrain\<close> set are left out: nothing below reads them.
\<close>

record Model = ModelArgs +
  stopSplitAt :: int32
  means :: Tensor
  scales :: Tensor
  quats :: Tensor
  featuresRest :: Tensor
  opacities :: Tensor
  gradScaler :: ManualGradScaler
  scale_Model :: f32
  translation_Model :: Tensor

text \<open>The division of two \<open>int\<close> values, which truncates towards zero.\<close>

definition int32_div :: "int32 \<Rightarrow> int32 \<Rightarrow> int32" where
  "int32_div a b = word_of_int (sint a sdiv sint b)"

text \<open>
  \<open>Model::Model\<close>, from the generator state it is called in, to the model and the
  generator state it leaves. It is \<open>None\<close> where \<open>xyz.size(0)\<close> throws.

  The tensor \<open>shs\<close> is made of zeros and only its row 0 of every point is written
  afterwards (the second assignment writes zeros to an empty slice), so \<open>featuresRest\<close>,
  the rows from 1 on, is the tensor of zeros of \<open>dimSh - 1\<close> rows for every point.
  Moving a tensor to the device and \<open>requires_grad_\<close> leave shape and elements as they
  are.
\<close>

definition Model_init ::
    "'rng Collaborators \<Rightarrow> InputData \<Rightarrow> ModelArgs \<Rightarrow> 'rng \<Rightarrow> (Model \<times> 'rng) option" where
  "Model_init T inputData args g0 =
     (case size0 (xyz (points inputData)) of
        None \<Rightarrow> None
      | Some numPoints \<Rightarrow>
          let g1 = manual_seed T 42;
              means0 = xyz (points inputData);
              scales0 = tensor_map (log_f32 T)
                          (repeat_1_3 (PointsTensor_scales T (xyz (points inputData))));
              (quats0, g2) = randomQuatTensor T numPoints g1;
              dimSh = numShBases T (shDegree args);
              featuresRest0 = zeros [numPoints, dimSh - 1, 3];
              opacities0 = tensor_map (logit_f32 T)
                             (tensor_mul_scalar (ones [numPoints, 1]) f32_tenth);
              featuresRest1 =
                (if mixedPrecision args \<and> 2 \<le>s fp16Level args \<and> device args \<noteq> kCPU
                 then to_kFloat16 (half_of_f32 T) featuresRest0
                 else featuresRest0);
              gradScaler0 = ManualGradScaler_default
                              \<lparr> enabled := (mixedPrecision args \<and> device args \<noteq> kCPU) \<rparr>
          in Some (ModelArgs.extend args
                     (Model.fields (int32_div (maxSteps args) 2) means0 scales0 quats0
                        featuresRest1 opacities0 gradScaler0
                        (scale_InputData inputData) (translation_InputData inputData)),
                   g2))"

subsection \<open>Auxiliary notions for the proofs\<close>

text \<open>The float \<open>2^k\<close>, for \<open>-149 \<le> k \<le> 127\<close>.\<close>

definition pow2 :: "int \<Rightarrow> f32" where
  "pow2 k = Fin False (2 ^ nat (min 23 (k + 149))) (max (k - 23) (- 149))"

text \<open>
  What holds of a scaler made by the default constructor after \<open>n\<close> calls of \<open>step\<close>:
  the factors are the default ones, and the scale is a power of two between
  \<open>2^(16 - n)\<close> and \<open>2^16\<close>, or it is zero, which takes 166 calls at least.
\<close>

definition default_inv :: "nat \<Rightarrow> ManualGradScaler \<Rightarrow> bool" where
  "default_inv n g \<longleftrightarrow>
     growthFactor g = f32_two \<and> backoffFactor g = f32_half \<and>
     ((\<exists>k. scale g = pow2 k \<and> - 149 \<le> k \<and> k \<le> 16 \<and> 16 - int n \<le> k)
      \<or> (scale g = f32_zero \<and> 166 \<le> n))"

text \<open>A parameter whose gradient is the tensor of the one element \<open>x\<close>.\<close>

definition param_with_grad :: "f32 \<Rightarrow> Param" where
  "param_with_grad x =
     \<lparr> data = zeros [1], grad = Some \<lparr> dtype = kFloat32, shape = [1], elems = [x] \<rparr> \<rparr>"

subsection \<open>An instance for the examples\<close>

text \<open>
  An instance of the collaborators, for the examples: the generator state is a counter,
  the seed sets it, and a draw returns one of two unit quaternions, by the counter, and
  advances it. The elementary functions are stand-ins.
\<close>

definition example_collaborators :: "nat Collaborators" where
  "example_collaborators =
     \<lparr> manual_seed = unat,
       random_unit_quat =
         (\<lambda>g. (if g < 43 then [f32_one, f32_zero, f32_zero, f32_zero]
                else [f32_zero, f32_one, f32_zero, f32_zero], Suc g)),
       knn_distance = (\<lambda>t. replicate (case shape t of [] \<Rightarrow> 0 | n # _ \<Rightarrow> n) f32_half),
       log_f32 = (\<lambda>x. x),
       logit_f32 = (\<lambda>x. x),
       half_of_f32 = (\<lambda>x. x),
       numShBases = (\<lambda>d. (unat d + 1) * (unat d + 1)) \<rparr>"

text \<open>A cloud of two points, and arguments that ask for mixed precision on a GPU.\<close>

definition example_input :: InputData where
  "example_input =
     \<lparr> points = \<lparr> xyz = zeros [2, 3], rgb = zeros [2, 3] \<rparr>,
       scale_InputData = f32_one,
       translation_InputData = zeros [3] \<rparr>"

definition example_args :: ModelArgs where
  "example_args =
     \<lparr> numCameras = 1, numDownscales = 2, resolutionSchedule = 3000, shDegree = 3,
       shDegreeInterval = 1000, refineEvery = 100, warmupLength = 500, resetAlphaEvery = 30,
       densifyGradThresh = f32_tenth, densifySizeThresh = f32_tenth, stopScreenSizeAt = 4000,
       splitScreenSize = f32_tenth, maxSteps = 30001, keepCrs = False,
       mixedPrecision = True, fp16Level = 2, ampWarmup = 1000, device = kCUDA \<rparr>"

section \<open>Properties of the floating-point operations\<close>

lemma bit_length_power2: "bit_length (2 ^ j) = Suc j"
proof (induction j)
  case 0
  show ?case by (simp add: bit_length.simps [of "Suc 0"] bit_length.simps [of 0])
next
  case (Suc j)
  have "bit_length (2 ^ Suc j) = Suc (bit_length (2 ^ Suc j div 2))"
    by (subst bit_length.simps) simp
  then show ?case using Suc by simp
qed

lemma f32_round_power2:
  assumes lo: "- 149 \<le> e + int j" and hi: "e + int j \<le> 127"
  shows "f32_round s (2 ^ j) e =
         Fin s (2 ^ nat (min 23 (e + int j + 149))) (max (e + int j - 23) (- 149))"
proof -
  define e' where "e' = max (e + int j - 23) (- 149)"
  have bl: "e + int (bit_length (2 ^ j)) - 24 = e + int j - 23"
    by (simp add: bit_length_power2)
  have e'104: "\<not> 104 < e'" using hi by (simp add: e'_def)
  have diff: "e + int j - e' = min 23 (e + int j + 149)"
    by (simp add: e'_def min_def max_def)
  show ?thesis
  proof (cases "e' \<le> e")
    case True
    have "(2::nat) ^ j * 2 ^ nat (e - e') = 2 ^ (j + nat (e - e'))"
      by (simp add: power_add)
    moreover have "int (j + nat (e - e')) = min 23 (e + int j + 149)"
      using True diff by simp
    then have "j + nat (e - e') = nat (min 23 (e + int j + 149))" by linarith
    ultimately show ?thesis
      using True e'104 by (simp add: f32_round_def bl e'_def [symmetric])
  next
    case False
    define k where "k = nat (e' - e)"
    have kpos: "0 < k" using False by (simp add: k_def)
    have kj: "k \<le> j" using diff lo False by (simp add: k_def min_def split: if_splits)
    have q: "(2::nat) ^ j div 2 ^ k = 2 ^ (j - k)"
      using kj by (simp add: power_diff)
    have r: "(2::nat) ^ j mod 2 ^ k = 0"
      using kj by (simp add: le_imp_power_dvd)
    have jk: "j - k = nat (min 23 (e + int j + 149))"
      using diff kj False by (simp add: k_def)
    have jk23: "j - k \<le> 23" using jk by simp
    have "(2::nat) ^ (j - k) \<le> 2 ^ 23"
      using jk23 by (intro power_increasing) simp_all
    then have ne: "(2::nat) ^ (j - k) \<noteq> 2 ^ 24" by simp
    show ?thesis
      using False e'104 ne
      by (simp add: f32_round_def bl e'_def [symmetric] k_def [symmetric] q r jk Let_def)
  qed
qed

lemma f32_round_underflow:
  assumes "e + int j = - 150"
  shows "f32_round s (2 ^ j) e = Fin s 0 (- 149)"
proof -
  have bl: "e + int (bit_length (2 ^ j)) - 24 = e + int j - 23"
    by (simp add: bit_length_power2)
  have k: "nat (- 149 - e) = Suc j" using assms by simp
  have e: "\<not> - 149 \<le> e" using assms by simp
  have q: "(2::nat) ^ j div (2 * 2 ^ j) = 0" by simp
  show ?thesis
    using e by (simp add: f32_round_def bl assms k q Let_def)
qed

lemma pow2_65536: "pow2 16 = f32_65536"
  by (simp add: pow2_def f32_65536_def)

lemma pow2_split:
  assumes "- 149 \<le> k"
  shows "int (nat (min 23 (k + 149))) + max (k - 23) (- 149) = k"
  using assms by arith

lemma f32_mul_pow2_half:
  assumes "- 149 \<le> k" and "k \<le> 127"
  shows "f32_mul (pow2 k) f32_half = (if k = - 149 then f32_zero else pow2 (k - 1))"
proof -
  define j where "j = nat (min 23 (k + 149))"
  define e where "e = max (k - 23) (- 149)"
  have val: "e - 24 + int (j + 23) = k - 1"
    using pow2_split [OF assms(1)] by (simp add: j_def e_def)
  have prod: "f32_mul (pow2 k) f32_half = f32_round False (2 ^ (j + 23)) (e - 24)"
    by (simp add: pow2_def f32_half_def j_def e_def power_add)
  show ?thesis
  proof (cases "k = - 149")
    case True
    have "f32_round False (2 ^ (j + 23)) (e - 24) = Fin False 0 (- 149)"
      by (rule f32_round_underflow) (use val True in simp)
    then have "f32_mul (pow2 k) f32_half = f32_zero"
      by (simp only: prod f32_zero_def)
    then show ?thesis using True by simp
  next
    case False
    have "f32_round False (2 ^ (j + 23)) (e - 24) =
          Fin False (2 ^ nat (min 23 (e - 24 + int (j + 23) + 149)))
                    (max (e - 24 + int (j + 23) - 23) (- 149))"
      by (rule f32_round_power2) (use val assms False in simp_all)
    also have "\<dots> = pow2 (k - 1)" unfolding val pow2_def ..
    finally have "f32_mul (pow2 k) f32_half = pow2 (k - 1)"
      by (simp only: prod)
    then show ?thesis using False by simp
  qed
qed

lemma f32_mul_pow2_two:
  assumes "- 149 \<le> k" and "k \<le> 126"
  shows "f32_mul (pow2 k) f32_two = pow2 (k + 1)"
proof -
  define j where "j = nat (min 23 (k + 149))"
  define e where "e = max (k - 23) (- 149)"
  have val: "e - 22 + int (j + 23) = k + 1"
    using pow2_split [OF assms(1)] by (simp add: j_def e_def)
  have prod: "f32_mul (pow2 k) f32_two = f32_round False (2 ^ (j + 23)) (e - 22)"
    by (simp add: pow2_def f32_two_def j_def e_def power_add)
  have "f32_round False (2 ^ (j + 23)) (e - 22) =
        Fin False (2 ^ nat (min 23 (e - 22 + int (j + 23) + 149)))
                  (max (e - 22 + int (j + 23) - 23) (- 149))"
    by (rule f32_round_power2) (use val assms in simp_all)
  also have "\<dots> = pow2 (k + 1)" unfolding val pow2_def ..
  finally show ?thesis by (simp only: prod)
qed

lemma f32_mul_zero_half: "f32_mul f32_zero f32_half = f32_zero"
  by (simp add: f32_zero_def f32_half_def f32_round_def)

lemma f32_mul_zero_two: "f32_mul f32_zero f32_two = f32_zero"
  by (simp add: f32_zero_def f32_two_def f32_round_def)

lemma f32_units_pow2:
  assumes "- 149 \<le> k"
  shows "f32_units False (2 ^ nat (min 23 (k + 149))) (max (k - 23) (- 149)) = 2 ^ nat (k + 149)"
proof -
  have "nat (min 23 (k + 149)) + nat (max (k - 23) (- 149) + 149) = nat (k + 149)"
    using assms by arith
  then have "(2::int) ^ nat (k + 149) =
             2 ^ nat (min 23 (k + 149)) * 2 ^ nat (max (k - 23) (- 149) + 149)"
    by (simp flip: power_add)
  then show ?thesis by simp
qed

lemma f32_less_pow2:
  assumes "- 149 \<le> a" and "- 149 \<le> b"
  shows "f32_less (pow2 a) (pow2 b) \<longleftrightarrow> a < b"
proof -
  have "f32_less (pow2 a) (pow2 b) \<longleftrightarrow> (2::int) ^ nat (a + 149) < 2 ^ nat (b + 149)"
    unfolding pow2_def f32_less.simps f32_units_pow2 [OF assms(1)] f32_units_pow2 [OF assms(2)] ..
  also have "\<dots> \<longleftrightarrow> nat (a + 149) < nat (b + 149)"
    by (rule power_strict_increasing_iff) simp
  also have "\<dots> \<longleftrightarrow> a < b" using assms by arith
  finally show ?thesis .
qed

lemma f32_le_pow2:
  assumes "- 149 \<le> a" and "- 149 \<le> b"
  shows "f32_le (pow2 a) (pow2 b) \<longleftrightarrow> a \<le> b"
proof -
  have "f32_le (pow2 a) (pow2 b) \<longleftrightarrow> (2::int) ^ nat (a + 149) \<le> 2 ^ nat (b + 149)"
    unfolding pow2_def f32_le.simps f32_units_pow2 [OF assms(1)] f32_units_pow2 [OF assms(2)] ..
  also have "\<dots> \<longleftrightarrow> nat (a + 149) \<le> nat (b + 149)"
    by (rule power_increasing_iff) simp
  also have "\<dots> \<longleftrightarrow> a \<le> b" using assms by arith
  finally show ?thesis .
qed

lemma f32_zero_pow2:
  assumes "- 149 \<le> k"
  shows "f32_less f32_zero (pow2 k)" and "f32_le f32_zero (pow2 k)"
  unfolding pow2_def f32_zero_def f32_less.simps f32_le.simps f32_units_pow2 [OF assms]
  by simp_all

lemma std_min_pow2_65536:
  assumes "- 149 \<le> k"
  shows "std_min (pow2 k) f32_65536 = pow2 (min k 16)"
  using f32_less_pow2 [of 16 k] assms
  by (simp add: std_min_def min_def flip: pow2_65536)

lemma std_min_zero_65536: "std_min f32_zero f32_65536 = f32_zero"
  by (simp add: std_min_def f32_zero_def f32_65536_def)

subsection \<open>The scan\<close>

lemma foundInf_iff:
  "foundInf params \<longleftrightarrow>
     (\<exists>p \<in> set params. \<exists>t. grad p = Some t \<and> (\<exists>x \<in> set (elems t). f32_isinf x \<or> f32_isnan x))"
proof (induction params)
  case Nil
  show ?case by simp
next
  case (Cons p ps)
  show ?case
  proof (cases "grad p")
    case None
    then show ?thesis using Cons.IH by simp
  next
    case (Some t)
    then show ?thesis
      using Cons.IH by (auto simp: any_isinf_def any_isnan_def list_ex_iff)
  qed
qed

lemma step_found:
  assumes "enabled g" and "foundInf params"
  shows "step g params =
         (False, g\<lparr> scale := f32_mul (scale g) (backoffFactor g), unskippedSteps := 0 \<rparr>)"
  using assms by (simp add: step_def)

lemma step_not_found:
  assumes "enabled g" and "\<not> foundInf params"
  shows "step g params =
         (True,
          if growthInterval g \<le>s unskippedSteps g + 1
          then g\<lparr> scale := std_min (f32_mul (scale g) (growthFactor g)) f32_65536,
                   unskippedSteps := 0 \<rparr>
          else g\<lparr> unskippedSteps := unskippedSteps g + 1 \<rparr>)"
  using assms by (simp add: step_def Let_def)

lemma std_min_clamps:
  assumes "\<not> f32_isnan x"
  shows "f32_le (std_min x f32_65536) f32_65536"
proof (cases x)
  case NaN
  then show ?thesis using assms by simp
next
  case (Inf s)
  then show ?thesis by (cases s) (simp_all add: std_min_def f32_65536_def)
next
  case (Fin s m e)
  then show ?thesis
    by (simp add: std_min_def f32_65536_def)
qed

subsection \<open>The scaler of the default constructor\<close>

lemma default_inv_init: "default_inv 0 (ManualGradScaler_default\<lparr> enabled := en \<rparr>)"
  unfolding default_inv_def ManualGradScaler_default_def ManualGradScaler_init_def
  using pow2_65536 by (intro conjI disjI1 exI [of _ 16]) simp_all

lemma default_inv_step:
  assumes "default_inv n g"
  shows "default_inv (Suc n) (snd (step g params))"
proof -
  from assms have gf: "growthFactor g = f32_two" and bf: "backoffFactor g = f32_half"
    by (simp_all add: default_inv_def)
  from assms consider
      (pow) k where "scale g = pow2 k" "- 149 \<le> k" "k \<le> 16" "16 - int n \<le> k"
    | (zero) "scale g = f32_zero" "166 \<le> n"
    by (auto simp: default_inv_def)
  then show ?thesis
  proof cases
    case pow
    have half: "f32_mul (scale g) f32_half = (if k = - 149 then f32_zero else pow2 (k - 1))"
      using pow f32_mul_pow2_half [of k] by simp
    have two: "std_min (f32_mul (scale g) f32_two) f32_65536 = pow2 (min (k + 1) 16)"
      using pow f32_mul_pow2_two [of k] std_min_pow2_65536 [of "k + 1"] by simp
    have halved: "(\<exists>k'. (if k = - 149 then f32_zero else pow2 (k - 1)) = pow2 k' \<and> - 149 \<le> k' \<and> k' \<le> 16
                    \<and> 16 - int (Suc n) \<le> k')
                \<or> ((if k = - 149 then f32_zero else pow2 (k - 1)) = f32_zero \<and> 166 \<le> Suc n)"
    proof (cases "k = - 149")
      case True
      then have "166 \<le> Suc n" using pow(4) by simp
      then show ?thesis using True by simp
    next
      case False
      then show ?thesis using pow by (intro disjI1 exI [of _ "k - 1"]) simp
    qed
    have grow: "\<exists>k'. pow2 (min (k + 1) 16) = pow2 k' \<and> - 149 \<le> k' \<and> k' \<le> 16
                    \<and> 16 - int (Suc n) \<le> k'"
      using pow by (intro exI [of _ "min (k + 1) 16"]) simp
    have keep: "\<exists>k'. scale g = pow2 k' \<and> - 149 \<le> k' \<and> k' \<le> 16 \<and> 16 - int (Suc n) \<le> k'"
      using pow by (intro exI [of _ k]) simp
    show ?thesis
      using halved grow keep
      by (simp add: step_def default_inv_def gf bf half two Let_def)
  next
    case zero
    then show ?thesis
      by (simp add: step_def default_inv_def gf bf f32_mul_zero_half f32_mul_zero_two
          std_min_zero_65536 Let_def)
  qed
qed

lemma default_inv_steps:
  assumes "default_inv n g"
  shows "default_inv (n + length pss) (steps g pss)"
  using assms
proof (induction pss arbitrary: n g)
  case Nil
  then show ?case by simp
next
  case (Cons ps pss)
  from default_inv_step [OF Cons.prems] Cons.IH [of "Suc n" "snd (step g ps)"]
  show ?case by simp
qed

lemma default_inv_range:
  assumes "default_inv n g"
  shows "f32_le f32_zero (scale g)" and "f32_le (scale g) f32_65536"
    and "n < 166 \<Longrightarrow> f32_less f32_zero (scale g)"
proof -
  from assms consider
      (pow) k where "scale g = pow2 k" "- 149 \<le> k" "k \<le> 16"
    | (zero) "scale g = f32_zero" "166 \<le> n"
    by (auto simp: default_inv_def)
  note cs = this
  show "f32_le f32_zero (scale g)"
    using cs by cases (simp_all add: f32_zero_pow2, simp add: f32_zero_def)
  show "f32_le (scale g) f32_65536"
    using cs
  proof cases
    case pow
    then show ?thesis using f32_le_pow2 [of k 16] by (simp add: pow2_65536)
  next
    case zero
    then show ?thesis by (simp add: f32_zero_def f32_65536_def)
  qed
  show "f32_less f32_zero (scale g)" if "n < 166"
    using cs that by cases (simp_all add: f32_zero_pow2)
qed

subsection \<open>Runs of calls\<close>

lemma steps_append: "steps g (pss @ qss) = steps (steps g pss) qss"
  by (induction pss arbitrary: g) simp_all

lemma foundInf_param_NaN: "foundInf [param_with_grad NaN]"
  by (simp add: param_with_grad_def any_isnan_def)

lemma not_foundInf_param_one: "\<not> foundInf [param_with_grad f32_one]"
  by (simp add: param_with_grad_def any_isnan_def any_isinf_def f32_one_def)

lemma steps_backoff_pow2:
  assumes "enabled g" and "backoffFactor g = f32_half" and "scale g = pow2 k"
    and "int n \<le> k + 149" and "k \<le> 127"
  shows "scale (steps g (replicate n [param_with_grad NaN])) = pow2 (k - int n)
         \<and> enabled (steps g (replicate n [param_with_grad NaN]))
         \<and> backoffFactor (steps g (replicate n [param_with_grad NaN])) = f32_half"
  using assms
proof (induction n arbitrary: g k)
  case 0
  then show ?case by simp
next
  case (Suc n)
  let ?g' = "snd (step g [param_with_grad NaN])"
  have st: "?g' = g\<lparr> scale := f32_mul (scale g) f32_half, unskippedSteps := 0 \<rparr>"
    using step_found [OF Suc.prems(1) foundInf_param_NaN] Suc.prems(2) by simp
  have sc: "scale ?g' = pow2 (k - 1)"
    using f32_mul_pow2_half [of k] Suc.prems by (simp add: st)
  have "scale (steps ?g' (replicate n [param_with_grad NaN])) = pow2 (k - 1 - int n)
        \<and> enabled (steps ?g' (replicate n [param_with_grad NaN]))
        \<and> backoffFactor (steps ?g' (replicate n [param_with_grad NaN])) = f32_half"
    by (rule Suc.IH) (use Suc.prems sc in \<open>simp_all add: st\<close>)
  then show ?case by (simp add: algebra_simps)
qed

lemma scale_after_166_backoffs:
  "scale (steps ManualGradScaler_default (replicate 166 [param_with_grad NaN])) = f32_zero"
proof -
  let ?bad = "[param_with_grad NaN]"
  let ?g = "steps ManualGradScaler_default (replicate 165 ?bad)"
  have d: "enabled ManualGradScaler_default" "backoffFactor ManualGradScaler_default = f32_half"
    "scale ManualGradScaler_default = pow2 16"
    by (simp_all add: ManualGradScaler_default_def ManualGradScaler_init_def pow2_65536)
  have g: "scale ?g = pow2 (- 149)" "enabled ?g" "backoffFactor ?g = f32_half"
    using steps_backoff_pow2 [OF d, of 165] by simp_all
  have "replicate (165 + 1) ?bad = replicate 165 ?bad @ replicate 1 ?bad"
    by (rule replicate_add)
  then have "replicate 166 ?bad = replicate 165 ?bad @ [?bad]"
    by simp
  then have "steps ManualGradScaler_default (replicate 166 ?bad) = snd (step ?g ?bad)"
    by (simp only: steps_append steps.simps)
  also have "scale \<dots> = f32_zero"
    using step_found [OF g(2) foundInf_param_NaN] g f32_mul_pow2_half [of "- 149"] by simp
  finally show ?thesis .
qed

section \<open>The loss-scaling controller\<close>

text \<open>
  C1. An enabled controller whose backoff factor is the constructor's default \<open>0.5f\<close> is
  given a parameter list in which some defined gradient holds an infinity or a NaN. Then
  \<open>step\<close> returns false, the scale is the float product of the old scale and \<open>0.5f\<close>,
  the counter is 0 and the other members are as before: the call does not grow the scale.
\<close>

theorem step_backoff_on_nonfinite_gradient:
  assumes "enabled g" and "backoffFactor g = f32_half"
    and "\<exists>p \<in> set params. \<exists>t. grad p = Some t \<and>
           (\<exists>x \<in> set (elems t). f32_isinf x \<or> f32_isnan x)"
  shows "step g params =
         (False, g\<lparr> scale := f32_mul (scale g) f32_half, unskippedSteps := 0 \<rparr>)"
  using step_found [of g params] assms by (simp add: foundInf_iff)

theorem step_backoff_on_nonfinite_gradient_witness:
  "enabled ManualGradScaler_default
   \<and> backoffFactor ManualGradScaler_default = f32_half
   \<and> (\<exists>p \<in> set [param_with_grad f32_one, param_with_grad (Inf False)].
         \<exists>t. grad p = Some t \<and> (\<exists>x \<in> set (elems t). f32_isinf x \<or> f32_isnan x))
   \<and> step ManualGradScaler_default [param_with_grad f32_one, param_with_grad (Inf False)] =
       (False, ManualGradScaler_default\<lparr> scale := Fin False (2 ^ 23) (- 8), unskippedSteps := 0 \<rparr>)"
proof -
  have e: "enabled ManualGradScaler_default"
    by (simp add: ManualGradScaler_default_def ManualGradScaler_init_def)
  have b: "backoffFactor ManualGradScaler_default = f32_half"
    by (simp add: ManualGradScaler_default_def ManualGradScaler_init_def)
  have x: "\<exists>p \<in> set [param_with_grad f32_one, param_with_grad (Inf False)].
         \<exists>t. grad p = Some t \<and> (\<exists>x \<in> set (elems t). f32_isinf x \<or> f32_isnan x)"
    by (simp add: param_with_grad_def)
  have m: "f32_mul (scale ManualGradScaler_default) f32_half = Fin False (2 ^ 23) (- 8)"
    using f32_mul_pow2_half [of 16]
    by (simp add: ManualGradScaler_default_def ManualGradScaler_init_def pow2_def flip: pow2_65536)
  show ?thesis
    using step_backoff_on_nonfinite_gradient [OF e b x] e b x by (simp only: m simp_thms)
qed

text \<open>
  C2. An enabled controller is given a parameter list whose defined gradients hold
  neither an infinity nor a NaN. Then \<open>step\<close> returns true and adds one to the
  counter; if the counter is then no less than \<open>growthInterval\<close> (2000 for the default
  constructor), the scale becomes the smaller of the float product of scale and
  \<open>growthFactor\<close> (\<open>2.0f\<close> for the default constructor) and \<open>65536.0f\<close>, and the
  counter is 0 again. Unless that product is a NaN, the new scale is at most 65536.
\<close>

theorem step_growth_on_finite_gradients:
  assumes "enabled g"
    and "\<forall>p \<in> set params. \<forall>t. grad p = Some t \<longrightarrow>
           (\<forall>x \<in> set (elems t). \<not> f32_isinf x \<and> \<not> f32_isnan x)"
  shows "step g params =
         (True,
          if growthInterval g \<le>s unskippedSteps g + 1
          then g\<lparr> scale := std_min (f32_mul (scale g) (growthFactor g)) f32_65536,
                   unskippedSteps := 0 \<rparr>
          else g\<lparr> unskippedSteps := unskippedSteps g + 1 \<rparr>)
         \<and> (\<not> f32_isnan (f32_mul (scale g) (growthFactor g)) \<longrightarrow>
              f32_le (std_min (f32_mul (scale g) (growthFactor g)) f32_65536) f32_65536)"
proof -
  have "\<not> foundInf params"
    using assms(2) unfolding foundInf_iff by blast
  then show ?thesis
    using step_not_found [OF assms(1)] std_min_clamps by blast
qed

theorem step_growth_on_finite_gradients_witness:
  "enabled (ManualGradScaler_default\<lparr> unskippedSteps := 1999 \<rparr>)
   \<and> \<not> foundInf [param_with_grad f32_one, \<lparr> data = zeros [1], grad = None \<rparr>]
   \<and> step (ManualGradScaler_default\<lparr> unskippedSteps := 1999 \<rparr>)
          [param_with_grad f32_one, \<lparr> data = zeros [1], grad = None \<rparr>] =
       (True, ManualGradScaler_default)
   \<and> step ManualGradScaler_default
          [param_with_grad f32_one, \<lparr> data = zeros [1], grad = None \<rparr>] =
       (True, ManualGradScaler_default\<lparr> unskippedSteps := 1 \<rparr>)"
proof -
  let ?ps = "[param_with_grad f32_one, \<lparr> data = zeros [1], grad = None \<rparr>]"
  let ?g = "ManualGradScaler_default\<lparr> unskippedSteps := 1999 \<rparr>"
  have e: "enabled ?g" "enabled ManualGradScaler_default"
    by (simp_all add: ManualGradScaler_default_def ManualGradScaler_init_def)
  have f: "\<forall>p \<in> set ?ps. \<forall>t. grad p = Some t \<longrightarrow>
             (\<forall>x \<in> set (elems t). \<not> f32_isinf x \<and> \<not> f32_isnan x)"
    by (simp add: param_with_grad_def f32_one_def)
  have m: "std_min (f32_mul (scale ?g) (growthFactor ?g)) f32_65536 = f32_65536"
    using f32_mul_pow2_two [of 16] std_min_pow2_65536 [of 17]
    by (simp add: ManualGradScaler_default_def ManualGradScaler_init_def flip: pow2_65536)
  have c: "growthInterval ?g \<le>s unskippedSteps ?g + 1"
    "\<not> growthInterval ManualGradScaler_default \<le>s unskippedSteps ManualGradScaler_default + 1"
    by (simp_all add: ManualGradScaler_default_def ManualGradScaler_init_def word_sle_eq)
  have r: "?g\<lparr> scale := f32_65536, unskippedSteps := 0 \<rparr> = ManualGradScaler_default"
    by (simp add: ManualGradScaler_default_def ManualGradScaler_init_def)
  have u: "unskippedSteps ManualGradScaler_default + 1 = 1"
    by (simp add: ManualGradScaler_default_def ManualGradScaler_init_def)
  have n: "\<not> foundInf ?ps"
    using f unfolding foundInf_iff by blast
  show ?thesis
    using step_growth_on_finite_gradients [OF e(1) f]
      step_growth_on_finite_gradients [OF e(2) f] e n c
    by (simp only: m r u if_True if_False simp_thms)
qed

text \<open>
  C3, as stated, fails: the scale does not stay positive. The scaler of the default
  constructor starts at \<open>2^16\<close>; each of 165 calls of \<open>step\<close> on a gradient holding a
  NaN halves it, down to \<open>2^-149\<close>, the smallest positive float, and the 166th call
  rounds the half of that to zero.
\<close>

theorem scale_not_positive_counterexample:
  "\<not> f32_less f32_zero
       (scale (steps ManualGradScaler_default (replicate 166 [param_with_grad NaN])))"
  by (simp add: scale_after_166_backoffs f32_zero_def)

text \<open>
  C3, amended. After every sequence of calls of \<open>step\<close> on the scaler of the default
  constructor, enabled or not, the scale is at least 0 and at most 65536; it is positive
  as long as fewer than 166 calls have been made.
\<close>

theorem scale_range_after_steps:
  "f32_le f32_zero (scale (steps (ManualGradScaler_default\<lparr> enabled := en \<rparr>) pss))
   \<and> f32_le (scale (steps (ManualGradScaler_default\<lparr> enabled := en \<rparr>) pss)) f32_65536
   \<and> (length pss < 166 \<longrightarrow>
        f32_less f32_zero (scale (steps (ManualGradScaler_default\<lparr> enabled := en \<rparr>) pss)))"
proof -
  have "default_inv (0 + length pss) (steps (ManualGradScaler_default\<lparr> enabled := en \<rparr>) pss)"
    by (rule default_inv_steps) (rule default_inv_init)
  then have inv: "default_inv (length pss) (steps (ManualGradScaler_default\<lparr> enabled := en \<rparr>) pss)"
    by simp
  show ?thesis
    using default_inv_range [OF inv] by blast
qed

theorem scale_range_after_steps_witness:
  "length (replicate 3 [param_with_grad NaN]) < 166
   \<and> f32_less f32_zero
        (scale (steps (ManualGradScaler_default\<lparr> enabled := True \<rparr>) (replicate 3 [param_with_grad NaN])))
   \<and> f32_le (scale (steps (ManualGradScaler_default\<lparr> enabled := True \<rparr>)
        (replicate 3 [param_with_grad NaN]))) f32_65536"
  using scale_range_after_steps [of True "replicate 3 [param_with_grad NaN]"] by simp

text \<open>
  C4. \<open>scaleGradients\<close> returns the loss with every element multiplied by the scale
  when the controller is enabled, and the loss itself when it is disabled.
\<close>

theorem scaleGradients_result:
  "scaleGradients g loss =
     (if enabled g then loss\<lparr> elems := map (\<lambda>x. f32_mul x (scale g)) (elems loss) \<rparr> else loss)"
  by (simp add: scaleGradients_def tensor_mul_scalar_def)

theorem scaleGradients_result_witness:
  "scaleGradients ManualGradScaler_default
     \<lparr> dtype = kFloat32, shape = [2], elems = [f32_one, f32_tenth] \<rparr> =
   \<lparr> dtype = kFloat32, shape = [2], elems = [f32_65536, Fin False 13421773 (- 11)] \<rparr>
   \<and> scaleGradients (ManualGradScaler_default\<lparr> enabled := False \<rparr>)
       \<lparr> dtype = kFloat32, shape = [2], elems = [f32_one, f32_tenth] \<rparr> =
     \<lparr> dtype = kFloat32, shape = [2], elems = [f32_one, f32_tenth] \<rparr>"
proof -
  have a: "f32_mul f32_one f32_65536 = f32_65536"
    by (simp add: f32_one_def f32_65536_def f32_round_def bit_length.simps)
  have b: "f32_mul f32_tenth f32_65536 = Fin False 13421773 (- 11)"
    by (simp add: f32_tenth_def f32_65536_def f32_round_def bit_length.simps)
  show ?thesis
    using scaleGradients_result [of ManualGradScaler_default]
      scaleGradients_result [of "ManualGradScaler_default\<lparr> enabled := False \<rparr>"]
    by (simp add: ManualGradScaler_default_def ManualGradScaler_init_def a b)
qed

text \<open>
  C8. On a disabled controller \<open>step\<close> returns true for every parameter list, gradients
  with infinities or NaNs included, and leaves the controller as it is.
\<close>

theorem step_disabled:
  assumes "\<not> enabled g"
  shows "step g params = (True, g)"
  using assms by (simp add: step_def)

theorem step_disabled_witness:
  "\<not> enabled (ManualGradScaler_default\<lparr> enabled := False \<rparr>)
   \<and> foundInf [param_with_grad NaN, param_with_grad (Inf True)]
   \<and> step (ManualGradScaler_default\<lparr> enabled := False \<rparr>)
          [param_with_grad NaN, param_with_grad (Inf True)] =
       (True, ManualGradScaler_default\<lparr> enabled := False \<rparr>)"
proof -
  have d: "\<not> enabled (ManualGradScaler_default\<lparr> enabled := False \<rparr>)" by simp
  have f: "foundInf [param_with_grad NaN, param_with_grad (Inf True)]"
    by (simp add: param_with_grad_def any_isnan_def)
  show ?thesis using step_disabled [OF d] d f by simp
qed

section \<open>The constructor of the model\<close>

text \<open>
  Facts about \<open>Model_init\<close>: it returns a model whenever the point tensor has a first
  dimension, and the members of that model are the values the constructor computes.
\<close>

lemma sint_int32_div_2: "sint (int32_div a 2) = sint a sdiv 2"
proof -
  have r: "- (2 ^ 31) \<le> sint a" "sint a < 2 ^ 31"
    using sint_range_size [of a] by (simp_all add: word_size)
  have "sint a sdiv 2 = sgn (sint a) * (\<bar>sint a\<bar> div 2)"
    by (simp add: signed_divide_int_def)
  then have b: "- (2 ^ 31) \<le> sint a sdiv 2" "sint a sdiv 2 < 2 ^ 31"
    using r by (auto simp: sgn_if split: if_splits)
  have "sint (word_of_int (sint a sdiv 2) :: int32) = sint a sdiv 2"
    using b by (simp add: sint_sbintrunc' signed_take_bit_int_eq_self)
  then show ?thesis by (simp add: int32_div_def)
qed

lemma sdiv_2_nonneg: "0 \<le> (x::int) \<Longrightarrow> x sdiv 2 = x div 2"
  by (simp add: signed_divide_int_def sgn_if)

lemma Model_init_Some:
  assumes "size0 (xyz (points inputData)) = Some numPoints"
  shows "\<exists>m g. Model_init T inputData args g0 = Some (m, g)"
  using assms by (simp add: Model_init_def Let_def split: prod.splits)

lemma f32_mul_one_tenth: "f32_mul f32_one f32_tenth = f32_tenth"
  by (simp add: f32_tenth_def f32_one_def f32_round_def bit_length.simps)

lemma Model_init_eq:
  assumes "Model_init T inputData args g0 = Some (m, g)"
  obtains numPoints where
    "size0 (xyz (points inputData)) = Some numPoints"
    "m = ModelArgs.extend args
           (Model.fields (int32_div (maxSteps args) 2)
              (xyz (points inputData))
              (tensor_map (log_f32 T) (repeat_1_3 (PointsTensor_scales T (xyz (points inputData)))))
              (fst (randomQuatTensor T numPoints (manual_seed T 42)))
              (if mixedPrecision args \<and> 2 \<le>s fp16Level args \<and> device args \<noteq> kCPU
               then to_kFloat16 (half_of_f32 T) (zeros [numPoints, numShBases T (shDegree args) - 1, 3])
               else zeros [numPoints, numShBases T (shDegree args) - 1, 3])
              (tensor_map (logit_f32 T) (tensor_mul_scalar (ones [numPoints, 1]) f32_tenth))
              (ManualGradScaler_default\<lparr> enabled := (mixedPrecision args \<and> device args \<noteq> kCPU) \<rparr>)
              (scale_InputData inputData) (translation_InputData inputData))"
    "g = snd (randomQuatTensor T numPoints (manual_seed T 42))"
  using assms
  by (auto simp: Model_init_def Let_def split: option.splits prod.splits)

lemma Model_init_fields:
  assumes "Model_init T inputData args g0 = Some (m, g)"
  shows "stopSplitAt m = int32_div (maxSteps args) 2"
    and "maxSteps m = maxSteps args"
    and "ampWarmup m = ampWarmup args"
    and "gradScaler m =
           ManualGradScaler_default\<lparr> enabled := (mixedPrecision args \<and> device args \<noteq> kCPU) \<rparr>"
    and "scales m =
           tensor_map (log_f32 T) (repeat_1_3 (PointsTensor_scales T (xyz (points inputData))))"
    and "dtype (featuresRest m) =
           (if mixedPrecision args \<and> 2 \<le>s fp16Level args \<and> device args \<noteq> kCPU
            then kFloat16 else kFloat32)"
  using assms
  by (auto elim!: Model_init_eq simp: ModelArgs.defs Model.defs to_kFloat16_def zeros_def)

lemma Model_init_tensors:
  assumes "Model_init T inputData args g0 = Some (m, g)"
    and "size0 (xyz (points inputData)) = Some numPoints"
  shows "quats m = fst (randomQuatTensor T numPoints (manual_seed T 42))"
    and "opacities m =
           \<lparr> dtype = kFloat32, shape = [numPoints, 1],
             elems = replicate numPoints (logit_f32 T f32_tenth) \<rparr>"
  using assms
  by (auto elim!: Model_init_eq
      simp: ModelArgs.defs Model.defs tensor_map_def tensor_mul_scalar_def ones_def f32_mul_one_tenth)

lemma example_size0: "size0 (xyz (points example_input)) = Some 2"
  by (simp add: example_input_def size0_def zeros_def)

lemma example_Model_init:
  "\<exists>m. Model_init example_collaborators example_input args g0 = Some (m, 44)"
proof -
  have "randomQuatTensor example_collaborators 2 42 =
        (\<lparr> dtype = kFloat32, shape = [2, 4],
           elems = [f32_one, f32_zero, f32_zero, f32_zero, f32_zero, f32_one, f32_zero, f32_zero] \<rparr>, 44)"
    unfolding randomQuatTensor_def numeral_2_eq_2
    by (simp add: example_collaborators_def)
  then show ?thesis
    using example_size0
    by (simp add: Model_init_def Let_def example_collaborators_def)
qed




text \<open>
  C6. The model made from a cloud of \<open>N\<close> points has an \<open>opacities\<close> tensor of shape
  \<open>N \<times> 1\<close> whose \<open>N\<close> entries all are the \<open>logit\<close> of the float \<open>0.1f\<close>.
\<close>

theorem opacities_initial:
  assumes "Model_init T inputData args g0 = Some (m, g)"
    and "size0 (xyz (points inputData)) = Some numPoints"
  shows "shape (opacities m) = [numPoints, 1]
         \<and> length (elems (opacities m)) = numPoints
         \<and> (\<forall>x \<in> set (elems (opacities m)). x = logit_f32 T f32_tenth)"
  using Model_init_tensors(2) [OF assms] by simp

theorem opacities_initial_witness:
  "\<exists>m g. Model_init example_collaborators example_input example_args 0 = Some (m, g)
     \<and> size0 (xyz (points example_input)) = Some 2
     \<and> shape (opacities m) = [2, 1]
     \<and> elems (opacities m) = [logit_f32 example_collaborators f32_tenth,
                                logit_f32 example_collaborators f32_tenth]"
proof -
  obtain m where m: "Model_init example_collaborators example_input example_args 0 = Some (m, 44)"
    using example_Model_init by blast
  from opacities_initial [OF m example_size0]
  have "shape (opacities m) = [2, 1]" "length (elems (opacities m)) = 2"
    "\<forall>x \<in> set (elems (opacities m)). x = logit_f32 example_collaborators f32_tenth"
    by simp_all
  then have "elems (opacities m) = [logit_f32 example_collaborators f32_tenth,
                                logit_f32 example_collaborators f32_tenth]"
    by (cases "elems (opacities m)"; cases "tl (elems (opacities m))") auto
  then show ?thesis using m example_size0 \<open>shape (opacities m) = [2, 1]\<close> by blast
qed

text \<open>
  C7. Two constructions from the same input data give the same \<open>quats\<close> and the same
  \<open>scales\<close>, whatever state the random generator was in before each of them and
  whatever the other arguments are: the constructor seeds the generator with 42 before it
  draws.
\<close>

theorem initial_quats_scales_reproducible:
  assumes "Model_init T inputData args g0 = Some (m, g)"
    and "Model_init T inputData args' g0' = Some (m', g')"
  shows "quats m = quats m' \<and> scales m = scales m'"
proof -
  from assms(1) obtain n where n: "size0 (xyz (points inputData)) = Some n"
    by (rule Model_init_eq)
  show ?thesis
    using Model_init_tensors(1) [OF assms(1) n] Model_init_tensors(1) [OF assms(2) n]
      Model_init_fields(5) [OF assms(1)] Model_init_fields(5) [OF assms(2)]
    by simp
qed

theorem initial_quats_scales_reproducible_witness:
  "\<exists>m g m' g'.
     Model_init example_collaborators example_input example_args 0 = Some (m, g)
     \<and> Model_init example_collaborators example_input (example_args\<lparr> device := kCPU \<rparr>) 7
         = Some (m', g')
     \<and> quats m = quats m' \<and> scales m = scales m'"
proof -
  obtain m where m: "Model_init example_collaborators example_input example_args 0 = Some (m, 44)"
    using example_Model_init by blast
  obtain m' where m': "Model_init example_collaborators example_input
       (example_args\<lparr> device := kCPU \<rparr>) 7 = Some (m', 44)"
    using example_Model_init by blast
  show ?thesis
    using initial_quats_scales_reproducible [OF m m'] m m' by blast
qed

text \<open>
  C9. In the model the constructor returns, the scaler is enabled if and only if mixed
  precision was asked for and the device is not \<open>kCPU\<close>. On \<open>kCPU\<close> it is disabled:
  \<open>scaleGradients\<close> returns its argument and \<open>step\<close> returns true and changes nothing.
\<close>

theorem gradScaler_enabled_iff:
  assumes "Model_init T inputData args g0 = Some (m, g)"
  shows "(enabled (gradScaler m) \<longleftrightarrow> mixedPrecision args \<and> device args \<noteq> kCPU)
         \<and> (device args = kCPU \<longrightarrow>
              \<not> enabled (gradScaler m)
              \<and> (\<forall>loss. scaleGradients (gradScaler m) loss = loss)
              \<and> (\<forall>params. step (gradScaler m) params = (True, gradScaler m)))"
  using Model_init_fields(4) [OF assms] by (simp add: scaleGradients_def step_def)

theorem gradScaler_enabled_iff_witness:
  "(\<exists>m g. Model_init example_collaborators example_input example_args 0 = Some (m, g)
       \<and> mixedPrecision example_args \<and> device example_args \<noteq> kCPU
       \<and> enabled (gradScaler m))
   \<and> (\<exists>m g. Model_init example_collaborators example_input
                (example_args\<lparr> device := kCPU \<rparr>) 0 = Some (m, g)
       \<and> mixedPrecision (example_args\<lparr> device := kCPU \<rparr>)
       \<and> device (example_args\<lparr> device := kCPU \<rparr>) = kCPU
       \<and> \<not> enabled (gradScaler m))"
proof -
  obtain m where m: "Model_init example_collaborators example_input example_args 0 = Some (m, 44)"
    using example_Model_init by blast
  obtain m' where m': "Model_init example_collaborators example_input
       (example_args\<lparr> device := kCPU \<rparr>) 0 = Some (m', 44)"
    using example_Model_init by blast
  have a: "mixedPrecision example_args" "device example_args \<noteq> kCPU"
    "mixedPrecision (example_args\<lparr> device := kCPU \<rparr>)"
    "device (example_args\<lparr> device := kCPU \<rparr>) = kCPU"
    by (simp_all add: example_args_def)
  have "enabled (gradScaler m)"
    using gradScaler_enabled_iff [OF m] a by simp
  moreover have "\<not> enabled (gradScaler m')"
    using gradScaler_enabled_iff [OF m'] a by simp
  ultimately show ?thesis using m m' a by blast
qed

text \<open>
  C10. The member \<open>stopSplitAt\<close> is no argument of the constructor: it is
  \<open>maxSteps / 2\<close>, the quotient rounded towards zero, which is the floor of the half for
  a \<open>maxSteps\<close> that is not negative.
\<close>

theorem stopSplitAt_half_maxSteps:
  assumes "Model_init T inputData args g0 = Some (m, g)"
  shows "stopSplitAt m = int32_div (maxSteps m) 2
         \<and> maxSteps m = maxSteps args
         \<and> sint (stopSplitAt m) = sint (maxSteps args) sdiv 2
         \<and> (0 \<le> sint (maxSteps args) \<longrightarrow> sint (stopSplitAt m) = sint (maxSteps args) div 2)"
  using Model_init_fields(1,2) [OF assms] sint_int32_div_2 [of "maxSteps args"]
    sdiv_2_nonneg [of "sint (maxSteps args)"]
  by simp

theorem stopSplitAt_half_maxSteps_witness:
  "\<exists>m g. Model_init example_collaborators example_input example_args 0 = Some (m, g)
     \<and> 0 \<le> sint (maxSteps example_args)
     \<and> maxSteps m = 30001 \<and> stopSplitAt m = 15000"
proof -
  obtain m where m: "Model_init example_collaborators example_input example_args 0 = Some (m, 44)"
    using example_Model_init by blast
  have d: "int32_div 30001 2 = 15000"
    by (simp add: int32_div_def signed_divide_int_def)
  have a: "maxSteps example_args = 30001" "0 \<le> sint (maxSteps example_args)"
    by (simp_all add: example_args_def)
  from stopSplitAt_half_maxSteps [OF m]
  have "maxSteps m = 30001" "stopSplitAt m = 15000"
    by (simp_all only: a d)
  then show ?thesis using m a by blast
qed

end
